theory Spec2Isabelle
  imports Complex_Main
begin

section \<open>Data model of the comprehensive analysis route\<close>

text \<open>
  The route handler under verification is the one that declares \<open>BLUECHIP_WHITELIST\<close>,
  \<open>identifyRiskFactorsFiltered\<close>, \<open>calculateOverallRiskScore\<close>, \<open>determineRiskLevel\<close>,
  \<open>generateRecommendation\<close>, \<open>calculateRugPullRisk\<close> and \<open>calculateDistributionScore\<close>.

  JavaScript numbers are modelled as exact numbers: \<open>int\<close> where the code only ever
  produces integers (impacts, scores, array lengths, the result of \<open>parseInt\<close>), \<open>real\<close>
  elsewhere.  \<open>NaN\<close> is \<open>None\<close> of an option type wherever the code can produce it.
  Rounding, overflow and the infinities of IEEE doubles are outside the model.
  TypeScript string unions become datatypes; interfaces become records.
\<close>

datatype severity = low | medium | high | critical

datatype risk_level = VeryLow | Low | Medium | High | VeryHigh

record RiskFactor =
  category :: string
  severity :: severity
  description :: string
  impact :: int

record TokenMetadata =
  name :: string
  symbol :: string
  totalSupply :: string
  decimals :: "int option"
  contractAddress :: string

record MarketData =
  price :: real
  marketCap :: real
  volume24h :: real
  priceChange24h :: real
  circulatingSupply :: real
  marketTotalSupply :: real
  maxSupply :: "real option"
  ath :: real
  athChangePercentage :: real
  atl :: real
  atlChangePercentage :: real

record SecurityAnalysis =
  isVerified :: bool
  hasProxyContract :: bool
  hasMintFunction :: bool
  hasPauseFunction :: bool
  hasBlacklistFunction :: bool
  hasOwnershipRenounced :: bool
  rugPullRisk :: int

record HolderAnalysis =
  totalHolders :: nat
  top10HoldersPercentage :: real
  creatorPercentage :: real
  distributionScore :: real

record ComprehensiveAnalysis =
  tokenData :: TokenMetadata
  marketData :: "MarketData option"
  securityAnalysis :: SecurityAnalysis
  holderAnalysis :: HolderAnalysis
  riskFactors :: "RiskFactor list"
  overallRiskScore :: int
  riskLevel :: risk_level
  recommendation :: string

section \<open>Scorer\<close>

text \<open>
  \<open>riskFactors.reduce((sum, factor) => sum + factor.impact, 0)\<close> is a left fold from 0,
  followed by \<open>Math.min(totalImpact, 100)\<close>.
\<close>

definition calculateOverallRiskScore :: "RiskFactor list \<Rightarrow> int" where
  "calculateOverallRiskScore fs =
     (let totalImpact = foldl (\<lambda>sum factor. sum + impact factor) 0 fs
      in min totalImpact 100)"

definition determineRiskLevel :: "int \<Rightarrow> risk_level" where
  "determineRiskLevel score =
     (if score \<le> 10 then VeryLow
      else if score \<le> 25 then Low
      else if score \<le> 50 then Medium
      else if score \<le> 75 then High
      else VeryHigh)"

text \<open>
  The recommendation texts start with an emoji; a \<open>string\<close> holds bytes, so each emoji
  is written as its UTF-8 encoding.
\<close>

definition bluechipMessage :: string where
  "bluechipMessage = [CHR 0xF0, CHR 0x9F, CHR 0x8C, CHR 0x9F] @
     '' This is a well-known, established token. No major risks detected.''"

definition avoidMessage :: string where
  "avoidMessage = [CHR 0xE2, CHR 0x9D, CHR 0x8C] @
     '' AVOID: This token has critical security issues. Do not invest.''"

definition highRiskMessage :: string where
  "highRiskMessage = [CHR 0xF0, CHR 0x9F, CHR 0x9A, CHR 0xA8] @
     '' HIGH RISK: This token has multiple serious red flags. Extreme caution advised.''"

definition cautionMessage :: string where
  "cautionMessage = [CHR 0xE2, CHR 0x9A, CHR 0xA0, CHR 0xEF, CHR 0xB8, CHR 0x8F] @
     '' CAUTION: This token has significant risks. Only invest what you can afford to lose.''"

definition moderateMessage :: string where
  "moderateMessage = [CHR 0xF0, CHR 0x9F, CHR 0x93, CHR 0x8A] @
     '' MODERATE: This token has some risks but may be acceptable for experienced investors.''"

definition lowRiskMessage :: string where
  "lowRiskMessage = [CHR 0xE2, CHR 0x9C, CHR 0x85] @
     '' LOW RISK: This token appears relatively safe but always DYOR.''"

definition veryLowRiskMessage :: string where
  "veryLowRiskMessage = [CHR 0xF0, CHR 0x9F, CHR 0x8C, CHR 0x9F] @
     '' VERY LOW RISK: This token shows good fundamentals and security practices.''"

definition generateRecommendation :: "ComprehensiveAnalysis \<Rightarrow> string" where
  "generateRecommendation analysis =
     (let criticalRisks = filter (\<lambda>f. severity f = critical) (riskFactors analysis);
          highRisks = filter (\<lambda>f. severity f = high) (riskFactors analysis)
      in if length criticalRisks > 0 then avoidMessage
         else if riskLevel analysis = VeryHigh \<or> length highRisks \<ge> 3 then highRiskMessage
         else if riskLevel analysis = High then cautionMessage
         else if riskLevel analysis = Medium then moderateMessage
         else if riskLevel analysis = Low then lowRiskMessage
         else veryLowRiskMessage)"

section \<open>Strings and numbers read from text\<close>

text \<open>
  \<open>String.prototype.toLowerCase\<close> on the ASCII range: the letters \<open>A\<close> to \<open>Z\<close> move to
  \<open>a\<close> to \<open>z\<close>, every other byte stays.
\<close>

definition lowerChar :: "char \<Rightarrow> char" where
  "lowerChar c =
     (let n = (of_char c :: nat) in if 65 \<le> n \<and> n \<le> 90 then char_of (n + 32) else c)"

definition toLowerCase :: "string \<Rightarrow> string" where
  "toLowerCase s = map lowerChar s"

definition isDigit :: "char \<Rightarrow> bool" where
  "isDigit c = (let n = (of_char c :: nat) in 48 \<le> n \<and> n \<le> 57)"

definition isHexDigit :: "char \<Rightarrow> bool" where
  "isHexDigit c =
     (let n = (of_char c :: nat)
      in (48 \<le> n \<and> n \<le> 57) \<or> (97 \<le> n \<and> n \<le> 102) \<or> (65 \<le> n \<and> n \<le> 70))"

text \<open>The white space that \<open>parseFloat\<close>, \<open>parseInt\<close> and \<open>\s\<close> skip, on the ASCII range.\<close>

definition isSpace :: "char \<Rightarrow> bool" where
  "isSpace c = (let n = (of_char c :: nat) in n = 32 \<or> (9 \<le> n \<and> n \<le> 13))"

definition digitValue :: "char \<Rightarrow> nat" where
  "digitValue c =
     (let n = (of_char c :: nat)
      in if 48 \<le> n \<and> n \<le> 57 then n - 48
         else if 97 \<le> n \<and> n \<le> 102 then n - 87
         else n - 55)"

definition digitsValue :: "nat \<Rightarrow> string \<Rightarrow> nat" where
  "digitsValue radix ds = foldl (\<lambda>acc c. radix * acc + digitValue c) 0 ds"

text \<open>A leading sign: whether it is a minus, and the rest of the text.\<close>

fun takeSign :: "string \<Rightarrow> bool \<times> string" where
  "takeSign [] = (False, [])"
| "takeSign (c # r) =
     (if c = CHR ''-'' then (True, r) else if c = CHR ''+'' then (False, r) else (False, c # r))"

text \<open>
  The exponent part of a decimal literal: \<open>e\<close> or \<open>E\<close>, an optional sign and at least
  one digit; anything else is no exponent.
\<close>

fun exponentOf :: "string \<Rightarrow> int" where
  "exponentOf [] = 0"
| "exponentOf (c # r) =
     (if c = CHR ''e'' \<or> c = CHR ''E'' then
        (let (neg, r2) = takeSign r; ds = takeWhile isDigit r2
         in if ds = [] then 0
            else if neg then - int (digitsValue 10 ds) else int (digitsValue 10 ds))
      else 0)"

definition pow10 :: "int \<Rightarrow> real" where
  "pow10 d = (if 0 \<le> d then 10 ^ nat d else 1 / 10 ^ nat (- d))"

text \<open>
  \<open>Number.parseFloat\<close>: skip white space, read the longest prefix that is a decimal
  literal (sign, digits, fraction, exponent) and ignore what follows; \<open>NaN\<close> when there
  is no such prefix.  The literal \<open>Infinity\<close> has no value in this model and reads as
  \<open>NaN\<close>.
\<close>

definition parseFloat :: "string \<Rightarrow> real option" where
  "parseFloat s =
     (let (neg, s2) = takeSign (dropWhile isSpace s);
          ip = takeWhile isDigit s2;
          s3 = dropWhile isDigit s2;
          fp = (case s3 of [] \<Rightarrow> [] | c # r \<Rightarrow> if c = CHR ''.'' then takeWhile isDigit r else []);
          s4 = (case s3 of [] \<Rightarrow> [] | c # r \<Rightarrow> if c = CHR ''.'' then dropWhile isDigit r else s3);
          m = (real (digitsValue 10 ip) + real (digitsValue 10 fp) / 10 ^ length fp)
                * pow10 (exponentOf s4)
      in if ip = [] \<and> fp = [] then None else Some (if neg then - m else m))"

text \<open>
  \<open>Number.parseInt\<close> without a radix: white space, a sign, then hexadecimal digits
  after \<open>0x\<close> or \<open>0X\<close> and decimal digits otherwise; \<open>NaN\<close> when no digit is read.
\<close>

definition parseInt :: "string \<Rightarrow> int option" where
  "parseInt s =
     (let (neg, s2) = takeSign (dropWhile isSpace s);
          hex = (case s2 of a # b # _ \<Rightarrow> a = CHR ''0'' \<and> (b = CHR ''x'' \<or> b = CHR ''X'') | _ \<Rightarrow> False);
          ds = (if hex then takeWhile isHexDigit (drop 2 s2) else takeWhile isDigit s2);
          v = int (digitsValue (if hex then 16 else 10) ds)
      in if ds = [] then None else Some (if neg then - v else v))"

text \<open>
  The regular expressions of the security scan are sequences of literal characters
  (\<open>LitI\<close> under the \<open>i\<close> flag), \<open>\s*\<close> and \<open>\s+\<close>.  Each white-space run is followed
  by a character that is not white space, so reading the whole run is exact.
  \<open>search\<close> is \<open>RegExp.prototype.test\<close>: a match starting anywhere.
\<close>

datatype pat_item = Lit char | LitI char | Spaces0 | Spaces1

fun matchHere :: "pat_item list \<Rightarrow> string \<Rightarrow> bool" where
  "matchHere [] s = True"
| "matchHere (Lit c # p) s = (case s of [] \<Rightarrow> False | d # r \<Rightarrow> d = c \<and> matchHere p r)"
| "matchHere (LitI c # p) s =
     (case s of [] \<Rightarrow> False | d # r \<Rightarrow> lowerChar d = lowerChar c \<and> matchHere p r)"
| "matchHere (Spaces0 # p) s = matchHere p (dropWhile isSpace s)"
| "matchHere (Spaces1 # p) s =
     (case s of [] \<Rightarrow> False | d # r \<Rightarrow> isSpace d \<and> matchHere p (dropWhile isSpace r))"

fun search :: "pat_item list \<Rightarrow> string \<Rightarrow> bool" where
  "search p [] = matchHere p []"
| "search p (c # s) = (matchHere p (c # s) \<or> search p s)"

section \<open>Allowlist and address format\<close>

definition BLUECHIP_WHITELIST :: "string list" where
  "BLUECHIP_WHITELIST =
     [''0xdac17f958d2ee523a2206206994597c13d831ec7'',
      ''0xa0b86991c6218b36c1d19d4a2e9eb0ce3606eb48'',
      toLowerCase ''0xc02aaA39b223FE8D0A0e5C4F27eAD9083C756Cc2'',
      ''0x514910771af9ca656af840dff83e8264ecf986ca'']"

definition isBluechipToken :: "string \<Rightarrow> bool" where
  "isBluechipToken address = (toLowerCase address \<in> set BLUECHIP_WHITELIST)"

text \<open>The test \<open>/^0x[a-fA-F0-9]{40}$/\<close> of the handler.\<close>

definition validAddressFormat :: "string \<Rightarrow> bool" where
  "validAddressFormat s =
     (case s of
        a # b # rest \<Rightarrow> a = CHR ''0'' \<and> b = CHR ''x'' \<and> length rest = 40 \<and> list_all isHexDigit rest
      | _ \<Rightarrow> False)"

section \<open>Source adapters\<close>

text \<open>A promise awaited through \<open>Promise.allSettled\<close>.\<close>

datatype 'a settled = Fulfilled 'a | Rejected

text \<open>\<open>value || fallback\<close> on a \<open>string | null\<close>: \<open>null\<close> and the empty string are falsy.\<close>

definition orString :: "string option \<Rightarrow> string \<Rightarrow> string" where
  "orString v fallback = (case v of None \<Rightarrow> fallback | Some s \<Rightarrow> if s = [] then fallback else s)"

subsection \<open>Metadata\<close>

text \<open>The four \<open>callContractMethod\<close> reads, as \<open>getTokenMetadata\<close> receives them.\<close>

record contract_reads =
  nameRead :: "string option settled"
  symbolRead :: "string option settled"
  decimalsRead :: "string option settled"
  totalSupplyRead :: "string option settled"

definition getTokenMetadata :: "string \<Rightarrow> contract_reads \<Rightarrow> TokenMetadata" where
  "getTokenMetadata address reads =
     \<lparr> name = (case nameRead reads of Fulfilled v \<Rightarrow> orString v ''Unknown'' | Rejected \<Rightarrow> ''Unknown''),
       symbol = (case symbolRead reads of Fulfilled v \<Rightarrow> orString v ''UNKNOWN'' | Rejected \<Rightarrow> ''UNKNOWN''),
       totalSupply = (case totalSupplyRead reads of Fulfilled v \<Rightarrow> orString v ''0'' | Rejected \<Rightarrow> ''0''),
       decimals = (case decimalsRead reads of Fulfilled v \<Rightarrow> parseInt (orString v ''18'') | Rejected \<Rightarrow> Some 18),
       contractAddress = address \<rparr>"

definition getDefaultTokenData :: "string \<Rightarrow> TokenMetadata" where
  "getDefaultTokenData address =
     \<lparr> name = ''Unknown Token'', symbol = ''UNKNOWN'', totalSupply = ''0'',
       decimals = Some 18, contractAddress = address \<rparr>"

subsection \<open>Market\<close>

text \<open>
  The numbers of the provider's \<open>market_data\<close> object that \<open>getMarketData\<close> reads; \<open>None\<close>
  is a field that is missing.  \<open>MarketThrows\<close> is a \<open>fetch\<close> or a body that throws.
\<close>

record coin_data =
  current_price_usd :: "real option"
  market_cap_usd :: "real option"
  total_volume_usd :: "real option"
  price_change_percentage_24h :: "real option"
  circulating_supply :: "real option"
  total_supply :: "real option"
  max_supply :: "real option"
  ath_usd :: "real option"
  ath_change_percentage_usd :: "real option"
  atl_usd :: "real option"
  atl_change_percentage_usd :: "real option"

datatype market_response = MarketThrows | MarketNotOk | MarketOk coin_data

definition orZero :: "real option \<Rightarrow> real" where
  "orZero v = (case v of None \<Rightarrow> 0 | Some x \<Rightarrow> x)"

definition getMarketData :: "market_response \<Rightarrow> MarketData option" where
  "getMarketData r =
     (case r of
        MarketThrows \<Rightarrow> None
      | MarketNotOk \<Rightarrow> None
      | MarketOk coinData \<Rightarrow>
          Some \<lparr> price = orZero (current_price_usd coinData),
                 marketCap = orZero (market_cap_usd coinData),
                 volume24h = orZero (total_volume_usd coinData),
                 priceChange24h = orZero (price_change_percentage_24h coinData),
                 circulatingSupply = orZero (circulating_supply coinData),
                 marketTotalSupply = orZero (total_supply coinData),
                 maxSupply = (case max_supply coinData of None \<Rightarrow> None
                              | Some x \<Rightarrow> if x = 0 then None else Some x),
                 ath = orZero (ath_usd coinData),
                 athChangePercentage = orZero (ath_change_percentage_usd coinData),
                 atl = orZero (atl_usd coinData),
                 atlChangePercentage = orZero (atl_change_percentage_usd coinData) \<rparr>)"

subsection \<open>Security\<close>

definition calculateRugPullRisk :: "SecurityAnalysis \<Rightarrow> int" where
  "calculateRugPullRisk security =
     (let risk = 0;
          risk = (if \<not> isVerified security then risk + 25 else risk);
          risk = (if hasMintFunction security then risk + 15 else risk);
          risk = (if hasBlacklistFunction security then risk + 25 else risk);
          risk = (if hasPauseFunction security then risk + 10 else risk);
          risk = (if hasProxyContract security then risk + 15 else risk);
          risk = (if \<not> hasOwnershipRenounced security then risk + 10 else risk)
      in min risk 100)"

definition getDefaultSecurityAnalysis :: SecurityAnalysis where
  "getDefaultSecurityAnalysis =
     \<lparr> isVerified = False, hasProxyContract = False, hasMintFunction = False,
       hasPauseFunction = False, hasBlacklistFunction = False,
       hasOwnershipRenounced = False, rugPullRisk = 50 \<rparr>"

text \<open>
  The block explorer's answer to \<open>getsourcecode\<close>: \<open>SourceOk src\<close> carries
  \<open>result?.[0]?.SourceCode || ""\<close>; \<open>SourceThrows\<close> is a \<open>fetch\<close> or a body that throws,
  which the \<open>catch\<close> of \<open>performSecurityAnalysis\<close> swallows.
\<close>

datatype source_response = SourceThrows | SourceNotOk | SourceOk string

definition mintPattern1 :: "pat_item list" where
  "mintPattern1 = map Lit ''function'' @ [Spaces1] @ map Lit ''mint'' @ [Spaces0, Lit (CHR ''('')]"

definition mintPattern2 :: "pat_item list" where
  "mintPattern2 = map Lit ''.mint'' @ [Spaces0, Lit (CHR ''('')]"

definition pausePattern :: "pat_item list" where
  "pausePattern = map Lit ''function'' @ [Spaces1] @ map Lit ''pause'' @ [Spaces0, Lit (CHR ''('')]"

definition blacklistPattern :: "pat_item list" where
  "blacklistPattern =
     map Lit ''function'' @ [Spaces1] @ map Lit ''blacklist'' @ [Spaces0, Lit (CHR ''('')]"

definition performSecurityAnalysis :: "source_response \<Rightarrow> SecurityAnalysis" where
  "performSecurityAnalysis r =
     (let analysis = \<lparr> isVerified = False, hasProxyContract = False, hasMintFunction = False,
                       hasPauseFunction = False, hasBlacklistFunction = False,
                       hasOwnershipRenounced = False, rugPullRisk = 0 \<rparr>
      in case r of
           SourceThrows \<Rightarrow> analysis
         | SourceNotOk \<Rightarrow> analysis\<lparr>rugPullRisk := calculateRugPullRisk analysis\<rparr>
         | SourceOk sourceCode \<Rightarrow>
             (let analysis = analysis\<lparr>isVerified := (sourceCode \<noteq> [])\<rparr>;
                  analysis =
                    (if sourceCode \<noteq> [] then
                       analysis
                         \<lparr> hasMintFunction := search mintPattern1 sourceCode \<or> search mintPattern2 sourceCode,
                           hasPauseFunction :=
                             search pausePattern sourceCode \<or> search (map Lit ''Pausable'') sourceCode,
                           hasBlacklistFunction :=
                             search (map LitI ''blacklist'') sourceCode \<or> search blacklistPattern sourceCode,
                           hasProxyContract :=
                             search (map Lit ''Proxy'') sourceCode \<or> search (map LitI ''upgradeable'') sourceCode,
                           hasOwnershipRenounced :=
                             search (map LitI ''renounceOwnership'') sourceCode
                               \<and> search (map Lit ''onlyOwner'') sourceCode \<rparr>
                     else analysis)
              in analysis\<lparr>rugPullRisk := calculateRugPullRisk analysis\<rparr>))"

subsection \<open>Holders\<close>

text \<open>A row of the holder list; \<open>None\<close> is a row without the field.\<close>

record holder =
  TokenHolderQuantity :: "string option"

text \<open>\<open>Number.parseFloat(holder.TokenHolderQuantity || "0")\<close>\<close>

definition quantityOf :: "holder \<Rightarrow> real option" where
  "quantityOf h = parseFloat (orString (TokenHolderQuantity h) ''0'')"

text \<open>Addition of numbers that may be \<open>NaN\<close>.\<close>

definition addNumber :: "real option \<Rightarrow> real option \<Rightarrow> real option" where
  "addNumber a b = (case a of None \<Rightarrow> None | Some x \<Rightarrow> (case b of None \<Rightarrow> None | Some y \<Rightarrow> Some (x + y)))"

definition sumQuantities :: "holder list \<Rightarrow> real option" where
  "sumQuantities holders = foldl (\<lambda>sum h. addNumber sum (quantityOf h)) (Some 0) holders"

text \<open>\<open>.filter((amount) => !isNaN(amount) && amount > 0)\<close>\<close>

fun keepPositive :: "real option list \<Rightarrow> real list" where
  "keepPositive [] = []"
| "keepPositive (None # r) = keepPositive r"
| "keepPositive (Some amount # r) = (if amount > 0 then amount # keepPositive r else keepPositive r)"

text \<open>
  The \<open>for\<close> loop over \<open>sortedHoldings\<close>, with the index \<open>i\<close> and the pair
  \<open>(sum, weightedSum)\<close> as its state (\<open>sm\<close> is the source's \<open>sum\<close>).
\<close>

function giniLoop :: "real list \<Rightarrow> nat \<Rightarrow> real \<times> real \<Rightarrow> real \<times> real" where
  "giniLoop sortedHoldings i (sm, weightedSum) =
     (if i < length sortedHoldings
      then giniLoop sortedHoldings (i + 1)
             (sm + sortedHoldings ! i, weightedSum + (real i + 1) * sortedHoldings ! i)
      else (sm, weightedSum))"
  by pat_completeness auto
termination
  by (relation "measure (\<lambda>(s, i, acc). length s - i)") auto

declare giniLoop.simps [simp del]

definition calculateDistributionScore :: "holder list \<Rightarrow> real option \<Rightarrow> real" where
  "calculateDistributionScore holders totalSupply' =
     (if holders = [] \<or> totalSupply' = Some 0 then 0
      else
        (let sortedHoldings = sort (keepPositive (map quantityOf holders))
         in if sortedHoldings = [] then 0
            else
              (let (sm, weightedSum) = giniLoop sortedHoldings 0 (0, 0)
               in if sm = 0 then 0
                  else
                    (let n = real (length sortedHoldings);
                         gini = (2 * weightedSum) / (n * sm) - (n + 1) / n
                     in max 0 (min 100 ((1 - gini) * 100))))))"

definition getDefaultHolderAnalysis :: HolderAnalysis where
  "getDefaultHolderAnalysis =
     \<lparr> totalHolders = 0, top10HoldersPercentage = 100, creatorPercentage = 100,
       distributionScore = 0 \<rparr>"

text \<open>
  \<open>totalSupplyFromHolders > 0 ? (part / totalSupplyFromHolders) * 100 : 100\<close>.  A total
  that is a number has only numbers as its summands, so the part is a number as well
  (lemma \<open>sumQuantities_take\<close> below); the last case is never reached.
\<close>

definition percentageOf :: "real option \<Rightarrow> real option \<Rightarrow> real" where
  "percentageOf part whole =
     (case whole of
        None \<Rightarrow> 100
      | Some t \<Rightarrow> if t > 0 then (case part of Some p \<Rightarrow> (p / t) * 100 | None \<Rightarrow> 100) else 100)"

text \<open>
  The block explorer's answer to \<open>tokenholderlist\<close>: \<open>HoldersOk status result\<close> carries the
  \<open>status\<close> field and the \<open>result\<close> field when it is an array.
\<close>

datatype holders_response = HoldersThrows | HoldersNotOk | HoldersOk string "holder list option"

definition analyzeHolderDistribution :: "holders_response \<Rightarrow> HolderAnalysis" where
  "analyzeHolderDistribution r =
     (case r of
        HoldersOk status result \<Rightarrow>
          (case result of
             Some holders \<Rightarrow>
               if status = ''1'' \<and> length holders > 0 then
                 (let totalSupplyFromHolders = sumQuantities holders;
                      top10Supply = sumQuantities (take 10 holders);
                      creatorBalance = quantityOf (hd holders)
                  in \<lparr> totalHolders = length holders,
                       top10HoldersPercentage = percentageOf top10Supply totalSupplyFromHolders,
                       creatorPercentage = percentageOf creatorBalance totalSupplyFromHolders,
                       distributionScore = calculateDistributionScore holders totalSupplyFromHolders \<rparr>)
               else getDefaultHolderAnalysis
           | None \<Rightarrow> getDefaultHolderAnalysis)
      | _ \<Rightarrow> getDefaultHolderAnalysis)"

section \<open>Risk factor deriver\<close>

text \<open>
  \<open>identifyRiskFactorsFiltered\<close> pushes factors in five commented blocks; each block is
  a list here and the function is their concatenation, in the order of the pushes.
\<close>

definition securityRisks :: "SecurityAnalysis \<Rightarrow> RiskFactor list" where
  "securityRisks s =
     (if isVerified s = False then
        [\<lparr> category = ''Security'', severity = high,
            description = ''Contract source code is not verified on Etherscan'', impact = 25 \<rparr>]
      else [])
     @ (if hasMintFunction s then
        [\<lparr> category = ''Security'', severity = medium,
            description = ''Contract has mint function - supply can be increased'', impact = 15 \<rparr>]
      else [])
     @ (if hasBlacklistFunction s then
        [\<lparr> category = ''Security'', severity = high,
            description = ''Contract can blacklist addresses from trading'', impact = 25 \<rparr>]
      else [])
     @ (if hasPauseFunction s then
        [\<lparr> category = ''Security'', severity = medium,
            description = ''Contract can be paused, stopping all transfers'', impact = 15 \<rparr>]
      else [])
     @ (if hasProxyContract s then
        [\<lparr> category = ''Security'', severity = medium,
            description = ''Proxy contract - logic can be upgraded'', impact = 20 \<rparr>]
      else [])"

definition marketRisks :: "MarketData option \<Rightarrow> RiskFactor list" where
  "marketRisks md =
     (case md of
        None \<Rightarrow> []
      | Some m \<Rightarrow>
          (if volume24h m < 10000 then
             [\<lparr> category = ''Market'', severity = medium,
                 description = ''Very low trading volume (< $10,000 daily)'', impact = 15 \<rparr>]
           else [])
          @ (if marketCap m < 100000 then
             [\<lparr> category = ''Market'', severity = medium,
                 description = ''Very low market cap (< $100,000)'', impact = 10 \<rparr>]
           else [])
          @ (if priceChange24h m < - 50 then
             [\<lparr> category = ''Market'', severity = high,
                 description = ''Severe price drop (>50%) in last 24 hours'', impact = 20 \<rparr>]
           else []))"

definition holderRisks :: "HolderAnalysis \<Rightarrow> RiskFactor list" where
  "holderRisks h =
     (if totalHolders h > 0 then
        (if top10HoldersPercentage h > 80 then
           [\<lparr> category = ''Distribution'', severity = high,
               description = ''Top 10 holders control more than 80% of supply'', impact = 25 \<rparr>]
         else [])
        @ (if creatorPercentage h > 50 then
           [\<lparr> category = ''Distribution'', severity = critical,
               description = ''Creator/deployer holds more than 50% of total supply'', impact = 30 \<rparr>]
         else [])
        @ (if totalHolders h < 100 then
           [\<lparr> category = ''Distribution'', severity = medium,
               description = ''Very few token holders (< 100)'', impact = 10 \<rparr>]
         else [])
      else [])"

definition metadataRisks :: "TokenMetadata \<Rightarrow> RiskFactor list" where
  "metadataRisks t =
     (if name t = ''Unknown'' \<or> symbol t = ''UNKNOWN'' then
        [\<lparr> category = ''Metadata'', severity = medium,
            description = ''Missing or invalid token name/symbol'', impact = 10 \<rparr>]
      else [])"

text \<open>
  \<open>totalSupply && decimals\<close> are tests of truthiness: the empty string, \<open>0\<close> and \<open>NaN\<close>
  are falsy.  \<open>supply > 1e12\<close> is false when \<open>supply\<close> is \<open>NaN\<close>.
\<close>

definition normalizedSupply :: "TokenMetadata \<Rightarrow> real option" where
  "normalizedSupply t =
     (case decimals t of
        None \<Rightarrow> None
      | Some d \<Rightarrow> map_option (\<lambda>x. x / pow10 d) (parseFloat (totalSupply t)))"

definition tokenomicsFactor :: RiskFactor where
  "tokenomicsFactor =
     \<lparr> category = ''Tokenomics'', severity = medium,
       description = ''Extremely large total supply (>1 trillion tokens)'', impact = 15 \<rparr>"

definition supplyRisks :: "TokenMetadata \<Rightarrow> RiskFactor list" where
  "supplyRisks t =
     (if totalSupply t \<noteq> [] \<and> decimals t \<noteq> None \<and> decimals t \<noteq> Some 0 then
        (case normalizedSupply t of
           None \<Rightarrow> []
         | Some supply \<Rightarrow> if supply > 10 ^ 12 then [tokenomicsFactor] else [])
      else [])"

definition identifyRiskFactorsFiltered :: "ComprehensiveAnalysis \<Rightarrow> RiskFactor list" where
  "identifyRiskFactorsFiltered analysis =
     securityRisks (securityAnalysis analysis)
     @ marketRisks (marketData analysis)
     @ holderRisks (holderAnalysis analysis)
     @ metadataRisks (tokenData analysis)
     @ supplyRisks (tokenData analysis)"

section \<open>The handler\<close>

text \<open>
  The request body: \<open>MalformedBody\<close> when \<open>request.json()\<close> throws, otherwise the
  \<open>contractAddress\<close> field (\<open>None\<close> when it is missing).  The outside world of one
  request is what the four providers answer.
\<close>

datatype request = MalformedBody | Body "string option"

record providers =
  contractReads :: contract_reads
  marketResponse :: market_response
  sourceResponse :: source_response
  holdersResponse :: holders_response

datatype response = BadRequest string | ServerError string | Json ComprehensiveAnalysis

definition resolved :: "'a settled \<Rightarrow> 'a \<Rightarrow> 'a" where
  "resolved p fallback = (case p of Fulfilled v \<Rightarrow> v | Rejected \<Rightarrow> fallback)"

definition POST :: "request \<Rightarrow> providers \<Rightarrow> response" where
  "POST req w =
     (case req of
        MalformedBody \<Rightarrow> ServerError ''Failed to perform token analysis. Please try again.''
      | Body field \<Rightarrow>
          (case field of
             None \<Rightarrow> BadRequest ''Contract address is required''
           | Some contractAddress' \<Rightarrow>
               if contractAddress' = [] then BadRequest ''Contract address is required''
               else if \<not> validAddressFormat contractAddress' then
                 BadRequest ''Invalid Ethereum address format''
               else if isBluechipToken contractAddress' then
                 Json \<lparr> tokenData = getTokenMetadata contractAddress' (contractReads w),
                        marketData = None,
                        securityAnalysis = getDefaultSecurityAnalysis,
                        holderAnalysis = getDefaultHolderAnalysis,
                        riskFactors = [],
                        overallRiskScore = 0,
                        riskLevel = VeryLow,
                        recommendation = bluechipMessage \<rparr>
               else
                 (let tokenData' = Fulfilled (getTokenMetadata contractAddress' (contractReads w));
                      marketData' = Fulfilled (getMarketData (marketResponse w));
                      securityAnalysis' = Fulfilled (performSecurityAnalysis (sourceResponse w));
                      holderAnalysis' = Fulfilled (analyzeHolderDistribution (holdersResponse w));
                      analysis =
                        \<lparr> tokenData = resolved tokenData' (getDefaultTokenData contractAddress'),
                          marketData = resolved marketData' None,
                          securityAnalysis = resolved securityAnalysis' getDefaultSecurityAnalysis,
                          holderAnalysis = resolved holderAnalysis' getDefaultHolderAnalysis,
                          riskFactors = [],
                          overallRiskScore = 0,
                          riskLevel = Medium,
                          recommendation = [] \<rparr>;
                      analysis = analysis\<lparr>riskFactors := identifyRiskFactorsFiltered analysis\<rparr>;
                      analysis = analysis\<lparr>overallRiskScore := calculateOverallRiskScore (riskFactors analysis)\<rparr>;
                      analysis = analysis\<lparr>riskLevel := determineRiskLevel (overallRiskScore analysis)\<rparr>;
                      analysis = analysis\<lparr>recommendation := generateRecommendation analysis\<rparr>
                  in Json analysis)))"

section \<open>Notions of the specification and example inputs\<close>

text \<open>The order of the tiers, from the least to the most severe.\<close>

fun levelRank :: "risk_level \<Rightarrow> nat" where
  "levelRank VeryLow = 0"
| "levelRank Low = 1"
| "levelRank Medium = 2"
| "levelRank High = 3"
| "levelRank VeryHigh = 4"

text \<open>
  A request for an address outside the allowlist, answered by providers of which only
  the name and decimals reads succeed, and the analysis the handler returns for it.
\<close>

definition exampleReads :: contract_reads where
  "exampleReads =
     \<lparr> nameRead = Fulfilled (Some ''Wrapped Ether''), symbolRead = Fulfilled None,
       decimalsRead = Fulfilled (Some ''18''), totalSupplyRead = Rejected \<rparr>"

definition exampleProviders :: providers where
  "exampleProviders =
     \<lparr> contractReads = exampleReads, marketResponse = MarketNotOk,
       sourceResponse = SourceNotOk, holdersResponse = HoldersNotOk \<rparr>"

definition exampleAddress :: string where
  "exampleAddress = ''0x00000000000000000000000000000000000000a1''"

definition wethChecksumAddress :: string where
  "wethChecksumAddress = ''0xC02aaA39b223FE8D0A0e5C4F27eAD9083C756Cc2''"

definition creatorFactor :: RiskFactor where
  "creatorFactor =
     \<lparr> category = ''Distribution'', severity = critical,
       description = ''Creator/deployer holds more than 50% of total supply'', impact = 30 \<rparr>"

definition unverifiedFactor :: RiskFactor where
  "unverifiedFactor =
     \<lparr> category = ''Security'', severity = high,
       description = ''Contract source code is not verified on Etherscan'', impact = 25 \<rparr>"

definition exampleAnalysis :: ComprehensiveAnalysis where
  "exampleAnalysis =
     \<lparr> tokenData = \<lparr> name = ''Wrapped Ether'', symbol = ''UNKNOWN'', totalSupply = ''0'',
                      decimals = Some 18, contractAddress = exampleAddress \<rparr>,
       marketData = None,
       securityAnalysis = \<lparr> isVerified = False, hasProxyContract = False, hasMintFunction = False,
                             hasPauseFunction = False, hasBlacklistFunction = False,
                             hasOwnershipRenounced = False, rugPullRisk = 35 \<rparr>,
       holderAnalysis = getDefaultHolderAnalysis,
       riskFactors =
         [\<lparr> category = ''Security'', severity = high,
             description = ''Contract source code is not verified on Etherscan'', impact = 25 \<rparr>,
          \<lparr> category = ''Metadata'', severity = medium,
             description = ''Missing or invalid token name/symbol'', impact = 10 \<rparr>],
       overallRiskScore = 35,
       riskLevel = Medium,
       recommendation = moderateMessage \<rparr>"

text \<open>
  The Gini coefficient as the specification writes it, for balances \<open>xs\<close> in ascending
  order with ranks counted from 1 and \<open>n\<close> the length of \<open>xs\<close>:
  \<open>(2 \<cdot> \<Sigma> i \<cdot> x\<^sub>i) / (n \<cdot> \<Sigma> x\<^sub>i) - (n + 1) / n\<close>.
\<close>

definition rankWeightedSum :: "real list \<Rightarrow> real" where
  "rankWeightedSum xs = sum_list (map (\<lambda>(i, x). real i * x) (enumerate 1 xs))"

definition giniCoefficient :: "real list \<Rightarrow> real" where
  "giniCoefficient xs =
     (let n = real (length xs)
      in (2 * rankWeightedSum xs) / (n * sum_list xs) - (n + 1) / n)"

text \<open>
  The distribution score as the specification states it: the coefficient of the whole
  list of balances, sorted, and 0 for an empty list, a list without a positive balance
  or a total of zero.
\<close>

definition claimedDistributionScore :: "real list \<Rightarrow> real" where
  "claimedDistributionScore xs =
     (if xs = [] \<or> \<not> (\<exists>x \<in> set xs. 0 < x) \<or> sum_list xs = 0 then 0
      else max 0 (min 100 ((1 - giniCoefficient (sort xs)) * 100)))"

text \<open>A holder row with the given quantity text, and a list of three rows.\<close>

definition holderWith :: "string \<Rightarrow> holder" where
  "holderWith q = \<lparr> TokenHolderQuantity = Some q \<rparr>"

definition exampleHolders :: "holder list" where
  "exampleHolders = [holderWith ''3'', holderWith ''0'', holderWith ''1'']"

text \<open>The overall risk score that the handler computes from an aggregated bundle.\<close>

definition bundleScore :: "ComprehensiveAnalysis \<Rightarrow> int" where
  "bundleScore analysis = calculateOverallRiskScore (identifyRiskFactorsFiltered analysis)"

text \<open>
  A token with no decimal places and a supply of five trillion units: the four contract
  reads, the metadata made from them and the analysis returned for it.
\<close>

definition zeroDecimalsReads :: contract_reads where
  "zeroDecimalsReads =
     \<lparr> nameRead = Fulfilled (Some ''Token''), symbolRead = Fulfilled (Some ''TKN''),
       decimalsRead = Fulfilled (Some ''0''), totalSupplyRead = Fulfilled (Some ''5000000000000'') \<rparr>"

definition zeroDecimalsToken :: TokenMetadata where
  "zeroDecimalsToken =
     \<lparr> name = ''Token'', symbol = ''TKN'', totalSupply = ''5000000000000'', decimals = Some 0,
       contractAddress = exampleAddress \<rparr>"

text \<open>
  A bundle in which every source carries data that triggers factors: a verified contract
  with mint and blacklist functions (40), a thin market (15), few holders (10) and a
  very large supply (15).
\<close>

definition richBundle :: ComprehensiveAnalysis where
  "richBundle =
     \<lparr> tokenData = \<lparr> name = ''Token'', symbol = ''TKN'', totalSupply = ''500000000000000'',
                      decimals = Some 2, contractAddress = exampleAddress \<rparr>,
       marketData = Some \<lparr> price = 1, marketCap = 10000000, volume24h = 500, priceChange24h = 0,
                            circulatingSupply = 1000, marketTotalSupply = 1000, maxSupply = None,
                            ath = 2, athChangePercentage = - 50, atl = 1 / 2,
                            atlChangePercentage = 100 \<rparr>,
       securityAnalysis = \<lparr> isVerified = True, hasProxyContract = False, hasMintFunction = True,
                             hasPauseFunction = False, hasBlacklistFunction = True,
                             hasOwnershipRenounced = False, rugPullRisk = 50 \<rparr>,
       holderAnalysis = \<lparr> totalHolders = 50, top10HoldersPercentage = 40, creatorPercentage = 10,
                           distributionScore = 60 \<rparr>,
       riskFactors = [], overallRiskScore = 0, riskLevel = Medium, recommendation = [] \<rparr>"

definition zeroDecimalsAnalysis :: ComprehensiveAnalysis where
  "zeroDecimalsAnalysis =
     \<lparr> tokenData = zeroDecimalsToken,
       marketData = None,
       securityAnalysis = \<lparr> isVerified = False, hasProxyContract = False, hasMintFunction = False,
                             hasPauseFunction = False, hasBlacklistFunction = False,
                             hasOwnershipRenounced = False, rugPullRisk = 35 \<rparr>,
       holderAnalysis = getDefaultHolderAnalysis,
       riskFactors = [unverifiedFactor],
       overallRiskScore = 25,
       riskLevel = Low,
       recommendation = lowRiskMessage \<rparr>"

section \<open>Properties of the scorer\<close>

lemma foldl_impact:
  "foldl (\<lambda>sum factor. sum + impact factor) a fs = a + sum_list (map impact fs)"
  by (induction fs arbitrary: a) auto

lemma score_sum: "calculateOverallRiskScore fs = min 100 (\<Sum>f\<leftarrow>fs. impact f)"
  by (simp add: calculateOverallRiskScore_def foldl_impact min.commute)

lemma POST_Json_score:
  "POST req w = Json a \<Longrightarrow> overallRiskScore a = calculateOverallRiskScore (riskFactors a)"
  unfolding POST_def Let_def
  by (auto simp: calculateOverallRiskScore_def split: request.splits option.splits if_splits)

subsection \<open>The example request\<close>

lemma valid_example: "validAddressFormat exampleAddress"
  by (simp add: validAddressFormat_def exampleAddress_def isHexDigit_def)

lemma not_bluechip_example: "\<not> isBluechipToken exampleAddress"
  by code_simp

lemma valid_weth: "validAddressFormat wethChecksumAddress"
  by (simp add: validAddressFormat_def wethChecksumAddress_def isHexDigit_def)

lemma example_meta:
  "getTokenMetadata exampleAddress exampleReads =
     \<lparr> name = ''Wrapped Ether'', symbol = ''UNKNOWN'', totalSupply = ''0'', decimals = Some 18,
       contractAddress = exampleAddress \<rparr>"
  by (simp add: getTokenMetadata_def exampleReads_def orString_def parseInt_def isSpace_def
      isDigit_def digitsValue_def digitValue_def)

lemma example_security:
  "performSecurityAnalysis SourceNotOk =
     \<lparr> isVerified = False, hasProxyContract = False, hasMintFunction = False,
       hasPauseFunction = False, hasBlacklistFunction = False,
       hasOwnershipRenounced = False, rugPullRisk = 35 \<rparr>"
  by (simp add: performSecurityAnalysis_def calculateRugPullRisk_def)

lemma example_supply:
  "supplyRisks \<lparr> name = ''Wrapped Ether'', symbol = ''UNKNOWN'', totalSupply = ''0'',
                 decimals = Some 18, contractAddress = exampleAddress \<rparr> = []"
  by (simp add: supplyRisks_def normalizedSupply_def parseFloat_def isSpace_def isDigit_def
      digitsValue_def digitValue_def pow10_def)

lemma example_POST: "POST (Body (Some exampleAddress)) exampleProviders = Json exampleAnalysis"
proof -
  have ne: "exampleAddress \<noteq> []" by (simp add: exampleAddress_def)
  show ?thesis
    unfolding POST_def Let_def
    by (simp add: ne valid_example not_bluechip_example exampleProviders_def example_meta
        example_security resolved_def getMarketData_def analyzeHolderDistribution_def
        identifyRiskFactorsFiltered_def securityRisks_def marketRisks_def holderRisks_def
        metadataRisks_def example_supply getDefaultHolderAnalysis_def
        calculateOverallRiskScore_def determineRiskLevel_def generateRecommendation_def
        exampleAnalysis_def)
qed

subsection \<open>Score and tier\<close>

text \<open>
  Claim C1.  For every list of risk factors the overall risk score is the sum of the
  impacts capped at 100, and every analysis the handler returns carries exactly that
  score for its own factor list (on the allowlist path the list is empty and the score 0).
\<close>

theorem overallRiskScore_is_clamped_sum:
  "calculateOverallRiskScore fs = min 100 (\<Sum>f\<leftarrow>fs. impact f)
   \<and> (POST req w = Json a \<longrightarrow> overallRiskScore a = min 100 (\<Sum>f\<leftarrow>riskFactors a. impact f))"
  using POST_Json_score[of req w a] by (simp add: score_sum)

theorem overallRiskScore_is_clamped_sum_witness:
  "POST (Body (Some exampleAddress)) exampleProviders = Json exampleAnalysis
   \<and> overallRiskScore exampleAnalysis = min 100 (\<Sum>f\<leftarrow>riskFactors exampleAnalysis. impact f)
   \<and> overallRiskScore exampleAnalysis = 35"
  using overallRiskScore_is_clamped_sum[of "[]" "Body (Some exampleAddress)" exampleProviders exampleAnalysis]
    example_POST
  by (simp add: exampleAnalysis_def)

text \<open>
  Claim C2.  The tier is a step function of the score with inclusive upper bounds 10,
  25, 50 and 75, and it never decreases when the score grows.
\<close>

theorem determineRiskLevel_step_monotone:
  "(s \<le> 10 \<longrightarrow> determineRiskLevel s = VeryLow)
   \<and> (10 < s \<and> s \<le> 25 \<longrightarrow> determineRiskLevel s = Low)
   \<and> (25 < s \<and> s \<le> 50 \<longrightarrow> determineRiskLevel s = Medium)
   \<and> (50 < s \<and> s \<le> 75 \<longrightarrow> determineRiskLevel s = High)
   \<and> (75 < s \<longrightarrow> determineRiskLevel s = VeryHigh)
   \<and> (s1 \<le> s2 \<longrightarrow> levelRank (determineRiskLevel s1) \<le> levelRank (determineRiskLevel s2))"
  by (simp add: determineRiskLevel_def)

theorem determineRiskLevel_step_monotone_witness:
  "determineRiskLevel 10 = VeryLow \<and> determineRiskLevel 11 = Low \<and> determineRiskLevel 25 = Low
   \<and> determineRiskLevel 50 = Medium \<and> determineRiskLevel 75 = High \<and> determineRiskLevel 76 = VeryHigh
   \<and> levelRank (determineRiskLevel 25) \<le> levelRank (determineRiskLevel 26)"
  using determineRiskLevel_step_monotone[of 10 25 26] determineRiskLevel_step_monotone[of 11]
    determineRiskLevel_step_monotone[of 25] determineRiskLevel_step_monotone[of 50]
    determineRiskLevel_step_monotone[of 75] determineRiskLevel_step_monotone[of 76]
  by simp

subsection \<open>Recommendation\<close>

lemma filter_severity_count:
  "length (filter (\<lambda>f. severity f = s) fs) = count_list (map severity fs) s"
  by (induction fs) auto

lemma filter_severity_nonempty:
  "(length (filter (\<lambda>f. severity f = s) fs) > 0) = (s \<in> set (map severity fs))"
  by (induction fs) auto

lemma messages_distinct:
  "distinct [avoidMessage, highRiskMessage, cautionMessage, moderateMessage, lowRiskMessage,
             veryLowRiskMessage, bluechipMessage]"
  by (simp add: avoidMessage_def highRiskMessage_def cautionMessage_def moderateMessage_def
      lowRiskMessage_def veryLowRiskMessage_def bluechipMessage_def)

text \<open>
  Claim C8.  The recommendation follows the cascade, first match first: a critical
  factor gives the avoid message whatever the tier; otherwise tier VeryHigh or at least
  three high-severity factors give the high-risk message; otherwise the tier alone
  decides between the caution, moderate, low-risk and very-low-risk messages.
\<close>

theorem generateRecommendation_cascade:
  "(critical \<in> set (map severity (riskFactors a)) \<longrightarrow> generateRecommendation a = avoidMessage)
   \<and> (critical \<notin> set (map severity (riskFactors a)) \<longrightarrow>
        generateRecommendation a =
          (if riskLevel a = VeryHigh \<or> 3 \<le> count_list (map severity (riskFactors a)) high
           then highRiskMessage
           else case riskLevel a of
                  High \<Rightarrow> cautionMessage
                | Medium \<Rightarrow> moderateMessage
                | Low \<Rightarrow> lowRiskMessage
                | _ \<Rightarrow> veryLowRiskMessage))"
  unfolding generateRecommendation_def Let_def filter_severity_nonempty
  unfolding filter_severity_count
  by (cases "riskLevel a") simp_all

theorem generateRecommendation_cascade_witness:
  "generateRecommendation (exampleAnalysis\<lparr>riskFactors := [creatorFactor], riskLevel := Medium\<rparr>) = avoidMessage
   \<and> generateRecommendation
         (exampleAnalysis\<lparr>riskFactors := [unverifiedFactor, unverifiedFactor, unverifiedFactor],
                           riskLevel := High\<rparr>) = highRiskMessage
   \<and> generateRecommendation (exampleAnalysis\<lparr>riskLevel := VeryHigh\<rparr>) = highRiskMessage
   \<and> generateRecommendation (exampleAnalysis\<lparr>riskLevel := High\<rparr>) = cautionMessage
   \<and> generateRecommendation exampleAnalysis = moderateMessage
   \<and> generateRecommendation (exampleAnalysis\<lparr>riskLevel := Low\<rparr>) = lowRiskMessage
   \<and> generateRecommendation (exampleAnalysis\<lparr>riskLevel := VeryLow\<rparr>) = veryLowRiskMessage"
  using generateRecommendation_cascade[of "exampleAnalysis\<lparr>riskFactors := [creatorFactor], riskLevel := Medium\<rparr>"]
    generateRecommendation_cascade[of "exampleAnalysis\<lparr>riskFactors := [unverifiedFactor, unverifiedFactor, unverifiedFactor], riskLevel := High\<rparr>"]
    generateRecommendation_cascade[of "exampleAnalysis\<lparr>riskLevel := VeryHigh\<rparr>"]
    generateRecommendation_cascade[of "exampleAnalysis\<lparr>riskLevel := High\<rparr>"]
    generateRecommendation_cascade[of exampleAnalysis]
    generateRecommendation_cascade[of "exampleAnalysis\<lparr>riskLevel := Low\<rparr>"]
    generateRecommendation_cascade[of "exampleAnalysis\<lparr>riskLevel := VeryLow\<rparr>"]
  by (simp add: exampleAnalysis_def creatorFactor_def unverifiedFactor_def)

section \<open>Properties of the allowlist\<close>

lemma valid_nonempty: "validAddressFormat a \<Longrightarrow> a \<noteq> []"
  by (auto simp: validAddressFormat_def)

lemma whitelist_lower: "e \<in> set BLUECHIP_WHITELIST \<Longrightarrow> toLowerCase e = e"
  unfolding BLUECHIP_WHITELIST_def by (auto; code_simp)

lemma isBluechipToken_case_insensitive:
  "isBluechipToken a = (\<exists>e \<in> set BLUECHIP_WHITELIST. toLowerCase a = toLowerCase e)"
  unfolding isBluechipToken_def using whitelist_lower by metis

text \<open>
  Claim C7.  An address of valid format that equals an allowlist entry up to letter case
  gets the fixed verdict: tier VeryLow, score 0, no factors and the allowlist
  recommendation, whatever the market, security and holder providers answer; only the
  metadata reads show in the result.
\<close>

theorem allowlisted_address_fixed_result:
  assumes "e \<in> set BLUECHIP_WHITELIST" and "toLowerCase addr = toLowerCase e"
    and "validAddressFormat addr"
  shows "POST (Body (Some addr)) w =
           Json \<lparr> tokenData = getTokenMetadata addr (contractReads w),
                  marketData = None,
                  securityAnalysis = getDefaultSecurityAnalysis,
                  holderAnalysis = getDefaultHolderAnalysis,
                  riskFactors = [],
                  overallRiskScore = 0,
                  riskLevel = VeryLow,
                  recommendation = bluechipMessage \<rparr>"
proof -
  have b: "isBluechipToken addr"
    using assms(1,2) isBluechipToken_case_insensitive by blast
  have ne: "addr \<noteq> []" using assms(3) by (rule valid_nonempty)
  show ?thesis unfolding POST_def by (simp add: b ne assms(3))
qed

theorem allowlisted_address_fixed_result_witness:
  "toLowerCase wethChecksumAddress \<in> set BLUECHIP_WHITELIST
   \<and> validAddressFormat wethChecksumAddress
   \<and> POST (Body (Some wethChecksumAddress)) exampleProviders =
         Json \<lparr> tokenData = getTokenMetadata wethChecksumAddress exampleReads,
                marketData = None,
                securityAnalysis = getDefaultSecurityAnalysis,
                holderAnalysis = getDefaultHolderAnalysis,
                riskFactors = [],
                overallRiskScore = 0,
                riskLevel = VeryLow,
                recommendation = bluechipMessage \<rparr>"
proof -
  have m: "toLowerCase wethChecksumAddress \<in> set BLUECHIP_WHITELIST"
    by code_simp
  have l: "toLowerCase wethChecksumAddress = toLowerCase (toLowerCase wethChecksumAddress)"
    using whitelist_lower[OF m] by simp
  show ?thesis
    using allowlisted_address_fixed_result[OF m l valid_weth, of exampleProviders] m valid_weth
    by (simp add: exampleProviders_def)
qed

text \<open>
  The format test comes first: an allowlisted address written with the prefix \<open>0X\<close>
  passes the allowlist comparison but is turned away before any analysis is made.
\<close>

lemma uppercase_prefix_rejected:
  "isBluechipToken ''0XC02aaA39b223FE8D0A0e5C4F27eAD9083C756Cc2''
   \<and> POST (Body (Some ''0XC02aaA39b223FE8D0A0e5C4F27eAD9083C756Cc2'')) w
       = BadRequest ''Invalid Ethereum address format''"
proof -
  have b: "isBluechipToken ''0XC02aaA39b223FE8D0A0e5C4F27eAD9083C756Cc2''"
    by code_simp
  have v: "\<not> validAddressFormat ''0XC02aaA39b223FE8D0A0e5C4F27eAD9083C756Cc2''"
    by (simp add: validAddressFormat_def)
  show ?thesis
    unfolding POST_def using b v by simp
qed

section \<open>Properties of the distribution scorer\<close>

subsection \<open>Totals that are numbers\<close>

lemma foldl_addNumber_None:
  "foldl (\<lambda>sum h. addNumber sum (quantityOf h)) None hs = None"
  by (induction hs) (simp_all add: addNumber_def)

lemma foldl_addNumber_Some:
  "(\<exists>t. foldl (\<lambda>sum h. addNumber sum (quantityOf h)) (Some a) hs = Some t)
     = (\<forall>h \<in> set hs. quantityOf h \<noteq> None)"
proof (induction hs arbitrary: a)
  case Nil
  then show ?case by simp
next
  case (Cons h hs)
  show ?case
  proof (cases "quantityOf h")
    case None
    then have "addNumber (Some a) (quantityOf h) = None"
      by (simp add: addNumber_def)
    then show ?thesis using None by (simp add: foldl_addNumber_None)
  next
    case (Some q)
    then show ?thesis using Cons.IH[of "a + q"] by (simp add: addNumber_def)
  qed
qed

lemma sumQuantities_take:
  assumes "sumQuantities holders = Some t"
  shows "\<exists>p. sumQuantities (take n holders) = Some p"
    and "holders \<noteq> [] \<Longrightarrow> \<exists>c. quantityOf (hd holders) = Some c"
proof -
  have a: "\<forall>h \<in> set holders. quantityOf h \<noteq> None"
    using assms foldl_addNumber_Some[of 0 holders] unfolding sumQuantities_def by blast
  then have "\<forall>h \<in> set (take n holders). quantityOf h \<noteq> None"
    by (meson in_set_takeD)
  then show "\<exists>p. sumQuantities (take n holders) = Some p"
    using foldl_addNumber_Some[of 0 "take n holders"] unfolding sumQuantities_def by blast
  show "holders \<noteq> [] \<Longrightarrow> \<exists>c. quantityOf (hd holders) = Some c"
    using a by (cases holders) auto
qed

subsection \<open>The loop and the score\<close>

lemma giniLoop_closed:
  "i \<le> length xs \<Longrightarrow>
   giniLoop xs i (s, w) =
     (s + sum_list (drop i xs),
      w + sum_list (map (\<lambda>(j, x). real j * x) (enumerate (i + 1) (drop i xs))))"
proof (induction xs i "(s, w)" arbitrary: s w rule: giniLoop.induct)
  case (1 xs i s w)
  show ?case
  proof (cases "i < length xs")
    case True
    then have d: "drop i xs = xs ! i # drop (Suc i) xs"
      by (simp add: Cons_nth_drop_Suc)
    from True have "Suc i \<le> length xs" by simp
    with "1.hyps"[OF True] True show ?thesis
      by (subst giniLoop.simps) (simp add: d algebra_simps)
  next
    case False
    with "1.prems" have "i = length xs" by simp
    then show ?thesis by (subst giniLoop.simps) simp
  qed
qed

lemma giniLoop_total:
  "giniLoop xs 0 (0, 0) = (sum_list xs, rankWeightedSum xs)"
  using giniLoop_closed[of 0 xs 0 0] by (simp add: rankWeightedSum_def)

lemma keepPositive_Some: "keepPositive (map Some xs) = filter (\<lambda>x. 0 < x) xs"
  by (induction xs) auto

lemma sum_list_pos_nonempty:
  fixes ps :: "real list"
  shows "ps \<noteq> [] \<Longrightarrow> \<forall>x \<in> set ps. 0 < x \<Longrightarrow> 0 < sum_list ps"
proof (induction ps)
  case Nil
  then show ?case by simp
next
  case (Cons p ps)
  have "0 \<le> sum_list ps"
    using Cons.prems(2) by (intro sum_list_nonneg) (simp add: less_imp_le)
  moreover have "0 < p" using Cons.prems(2) by simp
  ultimately show ?case by simp
qed

lemma sum_list_insort: "sum_list (insort x (ps :: real list)) = x + sum_list ps"
  by (induction ps) auto

lemma sum_list_sort: "sum_list (sort (ps :: real list)) = sum_list ps"
  by (induction ps) (auto simp: sum_list_insort)

lemma sort_Nil_iff: "(sort (ps :: real list) = []) = (ps = [])"
proof -
  have "length (sort ps) = length ps" by (rule length_sort)
  then show ?thesis by (cases ps) auto
qed

lemma positives_sum_pos:
  fixes xs :: "real list"
  assumes "filter (\<lambda>x. 0 < x) xs \<noteq> []"
  shows "0 < sum_list (filter (\<lambda>x. 0 < x) xs)"
proof (rule sum_list_pos_nonempty[OF assms])
  show "\<forall>x\<in>set (filter (\<lambda>x. 0 < x) xs). 0 < x" by simp
qed

lemma calculateDistributionScore_unfold:
  "calculateDistributionScore holders ts =
     (if holders = [] \<or> ts = Some 0 then 0
      else if keepPositive (map quantityOf holders) = [] then 0
      else if sum_list (keepPositive (map quantityOf holders)) = 0 then 0
      else max 0 (min 100
             ((1 - giniCoefficient (sort (keepPositive (map quantityOf holders)))) * 100)))"
  unfolding calculateDistributionScore_def giniLoop_total giniCoefficient_def Let_def
      sort_Nil_iff sum_list_sort prod.case
  by (rule refl)

text \<open>The score lies between 0 and 100 for every input.\<close>

lemma distribution_score_range:
  "0 \<le> calculateDistributionScore holders ts \<and> calculateDistributionScore holders ts \<le> 100"
  unfolding calculateDistributionScore_unfold by simp

text \<open>
  Claim C4, as the code has it.  For every list of holder rows whose quantities read as
  the numbers \<open>xs\<close>, the score is 0 when the list is empty, when the total handed in is
  zero or when no balance is positive; otherwise it is \<open>(1 - gini) \<cdot> 100\<close> clamped to
  0..100, where the coefficient is taken over the positive balances only, sorted
  ascending, with \<open>n\<close> the number of positive balances.
\<close>

theorem distribution_score_formula:
  assumes "map quantityOf holders = map Some xs"
  shows "calculateDistributionScore holders ts =
           (if xs = [] \<or> ts = Some 0 \<or> filter (\<lambda>x. 0 < x) xs = [] then 0
            else max 0 (min 100 ((1 - giniCoefficient (sort (filter (\<lambda>x. 0 < x) xs))) * 100)))"
proof -
  have e: "(holders = []) = (xs = [])"
    using assms by (metis map_is_Nil_conv)
  have k: "keepPositive (map quantityOf holders) = filter (\<lambda>x. 0 < x) xs"
    using assms by (simp add: keepPositive_Some)
  have p: "filter (\<lambda>x. 0 < x) xs \<noteq> [] \<Longrightarrow> sum_list (filter (\<lambda>x. 0 < x) xs) \<noteq> 0"
    using positives_sum_pos[of xs] by simp
  show ?thesis
    unfolding calculateDistributionScore_unfold k e using p by simp
qed


lemma quantityOf_examples:
  "quantityOf (holderWith ''0'') = Some 0"
  "quantityOf (holderWith ''1'') = Some 1"
  "quantityOf (holderWith ''3'') = Some 3"
  "quantityOf (holderWith ''1000'') = Some 1000"
  by (simp_all add: quantityOf_def holderWith_def orString_def parseFloat_def isSpace_def
      isDigit_def digitsValue_def digitValue_def pow10_def)

lemma gini_examples:
  "giniCoefficient [1, 3] = 1 / 4"
  "giniCoefficient [0, 1] = 1 / 2"
  by (simp_all add: giniCoefficient_def rankWeightedSum_def)

theorem distribution_score_formula_witness:
  "map quantityOf exampleHolders = map Some [3, 0, 1]
   \<and> calculateDistributionScore exampleHolders (sumQuantities exampleHolders) = 75"
proof -
  have m: "map quantityOf exampleHolders = map Some [3, 0, 1]"
    by (simp add: exampleHolders_def quantityOf_examples)
  have s: "sumQuantities exampleHolders = Some 4"
    by (simp add: sumQuantities_def exampleHolders_def quantityOf_examples addNumber_def)
  show ?thesis
    using distribution_score_formula[OF m, of "sumQuantities exampleHolders"] m
    by (simp add: s gini_examples)
qed

text \<open>
  Claim C4 as stated fails on a list with a zero balance: for the balances 0 and 1 the
  code drops the zero and returns 100, where the coefficient of the whole list gives 50.
\<close>

theorem distribution_score_counterexample:
  "map quantityOf [holderWith ''0'', holderWith ''1''] = [Some 0, Some 1]
   \<and> calculateDistributionScore [holderWith ''0'', holderWith ''1'']
         (sumQuantities [holderWith ''0'', holderWith ''1'']) = 100
   \<and> claimedDistributionScore [0, 1] = 50"
proof -
  have s: "sumQuantities [holderWith ''0'', holderWith ''1''] = Some 1"
    by (simp add: sumQuantities_def quantityOf_examples addNumber_def)
  have g: "giniCoefficient [1] = 0"
    by (simp add: giniCoefficient_def rankWeightedSum_def)
  have c: "calculateDistributionScore [holderWith ''0'', holderWith ''1''] (Some 1) = 100"
    unfolding calculateDistributionScore_unfold by (simp add: quantityOf_examples g)
  have d: "claimedDistributionScore [0, 1] = 50"
    by (simp add: claimedDistributionScore_def gini_examples)
  show ?thesis by (simp add: s c d quantityOf_examples)
qed

text \<open>
  Claim C3, as the code has it.  A list of exactly one holder with a positive balance has
  coefficient 0 and therefore the score 100, both from \<open>calculateDistributionScore\<close>
  with any total other than zero and in the profile that \<open>analyzeHolderDistribution\<close>
  builds from that list.
\<close>

theorem single_positive_holder_scores_100:
  assumes "quantityOf h = Some x" and "0 < x" and "ts \<noteq> Some 0"
  shows "calculateDistributionScore [h] ts = 100
         \<and> distributionScore (analyzeHolderDistribution (HoldersOk ''1'' (Some [h]))) = 100"
proof -
  have g: "giniCoefficient [x] = 0"
    using assms(2) by (simp add: giniCoefficient_def rankWeightedSum_def)
  have a: "t \<noteq> Some 0 \<Longrightarrow> calculateDistributionScore [h] t = 100" for t
    unfolding calculateDistributionScore_unfold using assms(1,2) by (simp add: g)
  have s: "sumQuantities [h] = Some x"
    using assms(1) by (simp add: sumQuantities_def addNumber_def)
  have n: "sumQuantities [h] \<noteq> Some 0" using s assms(2) by simp
  show ?thesis
    using a[OF assms(3)] a[OF n]
    by (simp add: analyzeHolderDistribution_def Let_def)
qed

theorem single_positive_holder_scores_100_witness:
  "quantityOf (holderWith ''1000'') = Some 1000
   \<and> calculateDistributionScore [holderWith ''1000''] (Some 1000) = 100
   \<and> distributionScore (analyzeHolderDistribution (HoldersOk ''1'' (Some [holderWith ''1000'']))) = 100"
  using single_positive_holder_scores_100[OF quantityOf_examples(4), of "Some 1000"]
    quantityOf_examples(4)
  by simp

text \<open>
  Claim C3 as stated (score 0 for a single positive balance) fails for one holder with
  the balance 1000.
\<close>

theorem single_holder_score_counterexample:
  "quantityOf (holderWith ''1000'') = Some 1000
   \<and> calculateDistributionScore [holderWith ''1000''] (sumQuantities [holderWith ''1000'']) = 100
   \<and> calculateDistributionScore [holderWith ''1000''] (sumQuantities [holderWith ''1000'']) \<noteq> 0"
proof -
  have s: "sumQuantities [holderWith ''1000''] = Some 1000"
    by (simp add: sumQuantities_def quantityOf_examples addNumber_def)
  have g: "giniCoefficient [1000] = 0"
    by (simp add: giniCoefficient_def rankWeightedSum_def)
  have c: "calculateDistributionScore [holderWith ''1000''] (Some 1000) = 100"
    unfolding calculateDistributionScore_unfold by (simp add: quantityOf_examples g)
  show ?thesis by (simp add: s c quantityOf_examples)
qed

section \<open>Properties of the security adapter\<close>

lemma calculateRugPullRisk_update:
  "calculateRugPullRisk (a\<lparr>rugPullRisk := x\<rparr>) = calculateRugPullRisk a"
  by (simp add: calculateRugPullRisk_def)

text \<open>
  Claim C5, as the code has it.  When the source lookup fails (the request throws, the
  response is not ok or no source text comes back), and likewise in the default
  profile, all six boolean flags are false: \<open>isVerified\<close> and \<open>hasOwnershipRenounced\<close>
  take their pessimistic value, and no proxy, mint, pause or blacklist function is
  assumed.
\<close>

theorem failed_lookup_flags_all_false:
  assumes "r = SourceThrows \<or> r = SourceNotOk \<or> r = SourceOk []"
  shows "\<not> isVerified (performSecurityAnalysis r)
       \<and> \<not> hasOwnershipRenounced (performSecurityAnalysis r)
       \<and> \<not> hasProxyContract (performSecurityAnalysis r)
       \<and> \<not> hasMintFunction (performSecurityAnalysis r)
       \<and> \<not> hasPauseFunction (performSecurityAnalysis r)
       \<and> \<not> hasBlacklistFunction (performSecurityAnalysis r)
       \<and> \<not> isVerified getDefaultSecurityAnalysis
       \<and> \<not> hasOwnershipRenounced getDefaultSecurityAnalysis
       \<and> \<not> hasProxyContract getDefaultSecurityAnalysis
       \<and> \<not> hasMintFunction getDefaultSecurityAnalysis
       \<and> \<not> hasPauseFunction getDefaultSecurityAnalysis
       \<and> \<not> hasBlacklistFunction getDefaultSecurityAnalysis"
  using assms
  by (auto simp: performSecurityAnalysis_def getDefaultSecurityAnalysis_def)

theorem failed_lookup_flags_all_false_witness:
  "\<not> isVerified (performSecurityAnalysis SourceNotOk)
   \<and> \<not> hasOwnershipRenounced (performSecurityAnalysis SourceNotOk)
   \<and> \<not> hasProxyContract (performSecurityAnalysis SourceNotOk)
   \<and> \<not> hasMintFunction (performSecurityAnalysis SourceNotOk)
   \<and> \<not> hasPauseFunction (performSecurityAnalysis SourceNotOk)
   \<and> \<not> hasBlacklistFunction (performSecurityAnalysis SourceNotOk)"
  using failed_lookup_flags_all_false[of SourceNotOk] by simp

text \<open>
  Claim C5 as stated asks for the four dangerous-function flags to be true after a
  failed lookup; they are false both in the default profile and in the profile built
  from a response that is not ok.
\<close>

theorem default_flags_counterexample:
  "\<not> hasProxyContract getDefaultSecurityAnalysis
   \<and> \<not> hasMintFunction getDefaultSecurityAnalysis
   \<and> \<not> hasPauseFunction getDefaultSecurityAnalysis
   \<and> \<not> hasBlacklistFunction getDefaultSecurityAnalysis
   \<and> \<not> hasProxyContract (performSecurityAnalysis SourceNotOk)
   \<and> \<not> hasMintFunction (performSecurityAnalysis SourceNotOk)
   \<and> \<not> hasPauseFunction (performSecurityAnalysis SourceNotOk)
   \<and> \<not> hasBlacklistFunction (performSecurityAnalysis SourceNotOk)"
  by (simp add: performSecurityAnalysis_def getDefaultSecurityAnalysis_def)

lemma performSecurityAnalysis_shape:
  assumes "r \<noteq> SourceThrows"
  shows "\<exists>a. performSecurityAnalysis r = a\<lparr>rugPullRisk := calculateRugPullRisk a\<rparr>"
proof (cases r)
  case SourceThrows
  with assms show ?thesis by simp
next
  case SourceNotOk
  show ?thesis
    unfolding SourceNotOk performSecurityAnalysis_def Let_def source_response.case
    by (rule exI, rule refl)
next
  case (SourceOk src)
  show ?thesis
    unfolding SourceOk performSecurityAnalysis_def Let_def source_response.case
    by (rule exI, rule refl)
qed

text \<open>
  Claim C10, as the code has it.  Whenever the lookup does not throw, the profile that
  \<open>performSecurityAnalysis\<close> returns carries the risk computed from its own flags; the
  default profile carries the constant 50.
\<close>

theorem rugPullRisk_derived_unless_thrown:
  assumes "r \<noteq> SourceThrows"
  shows "rugPullRisk (performSecurityAnalysis r) = calculateRugPullRisk (performSecurityAnalysis r)
         \<and> rugPullRisk getDefaultSecurityAnalysis = 50"
proof -
  obtain a where "performSecurityAnalysis r = a\<lparr>rugPullRisk := calculateRugPullRisk a\<rparr>"
    using performSecurityAnalysis_shape[OF assms] by blast
  then show ?thesis
    by (simp add: calculateRugPullRisk_update getDefaultSecurityAnalysis_def)
qed

text \<open>Two source texts and the profiles read from them.\<close>

lemma full_source_profile:
  "performSecurityAnalysis
     (SourceOk ''contract T is Pausable { function  mint (uint a) onlyOwner {} function renounceOwnership() {} } // BlackList upgradeable'') =
     \<lparr> isVerified = True, hasProxyContract = True, hasMintFunction = True,
       hasPauseFunction = True, hasBlacklistFunction = True,
       hasOwnershipRenounced = True, rugPullRisk = 65 \<rparr>"
  by code_simp

lemma mint_source_profile:
  "performSecurityAnalysis (SourceOk ''function mint('') =
     \<lparr> isVerified = True, hasProxyContract = False, hasMintFunction = True,
       hasPauseFunction = False, hasBlacklistFunction = False,
       hasOwnershipRenounced = False, rugPullRisk = 25 \<rparr>"
  by code_simp

theorem rugPullRisk_derived_unless_thrown_witness:
  "SourceOk ''function mint('' \<noteq> SourceThrows
   \<and> rugPullRisk (performSecurityAnalysis (SourceOk ''function mint('')) =
       calculateRugPullRisk (performSecurityAnalysis (SourceOk ''function mint(''))
   \<and> rugPullRisk (performSecurityAnalysis (SourceOk ''function mint('')) = 25"
  using rugPullRisk_derived_unless_thrown[of "SourceOk ''function mint(''"]
  by (simp add: mint_source_profile)

text \<open>
  Claim C10 as stated fails for the default profile: its flags derive 35, its
  \<open>rugPullRisk\<close> is 50.
\<close>

theorem default_rugPullRisk_counterexample:
  "rugPullRisk getDefaultSecurityAnalysis = 50
   \<and> calculateRugPullRisk getDefaultSecurityAnalysis = 35
   \<and> rugPullRisk getDefaultSecurityAnalysis \<noteq> calculateRugPullRisk getDefaultSecurityAnalysis"
  by (simp add: getDefaultSecurityAnalysis_def calculateRugPullRisk_def)

text \<open>When the lookup throws, the risk stays at its initial 0 although the flags derive 35.\<close>

lemma thrown_lookup_risk:
  "rugPullRisk (performSecurityAnalysis SourceThrows) = 0
   \<and> calculateRugPullRisk (performSecurityAnalysis SourceThrows) = 35"
  by (simp add: performSecurityAnalysis_def calculateRugPullRisk_def)


section \<open>Properties of default substitution\<close>

lemma bundleScore_sum:
  "bundleScore b =
     min 100 ((\<Sum>f\<leftarrow>securityRisks (securityAnalysis b). impact f)
              + (\<Sum>f\<leftarrow>marketRisks (marketData b). impact f)
              + (\<Sum>f\<leftarrow>holderRisks (holderAnalysis b). impact f)
              + (\<Sum>f\<leftarrow>metadataRisks (tokenData b) @ supplyRisks (tokenData b). impact f))"
  by (simp add: bundleScore_def score_sum identifyRiskFactorsFiltered_def)

lemma marketRisks_None: "marketRisks None = []"
  by (simp add: marketRisks_def)

lemma marketRisks_nonneg: "0 \<le> (\<Sum>f\<leftarrow>marketRisks m. impact f)"
  by (simp add: marketRisks_def split: option.splits)

lemma holderRisks_nonneg: "0 \<le> (\<Sum>f\<leftarrow>holderRisks h. impact f)"
  by (simp add: holderRisks_def)

lemma default_security_risks: "(\<Sum>f\<leftarrow>securityRisks getDefaultSecurityAnalysis. impact f) = 25"
  by (simp add: securityRisks_def getDefaultSecurityAnalysis_def)

lemma default_holder_risks: "holderRisks getDefaultHolderAnalysis = []"
  by (simp add: holderRisks_def getDefaultHolderAnalysis_def)

lemma default_metadata_risks:
  "(\<Sum>f\<leftarrow>metadataRisks (getDefaultTokenData addr). impact f) = 10"
  by (simp add: metadataRisks_def getDefaultTokenData_def)

lemma default_supply_risks: "supplyRisks (getDefaultTokenData addr) = []"
  by (simp add: supplyRisks_def normalizedSupply_def getDefaultTokenData_def
      parseFloat_def isSpace_def isDigit_def digitsValue_def digitValue_def pow10_def)

text \<open>
  Claim C6, as the code has it.  A missing market snapshot and the default holder profile
  trigger no factor, so substituting them never raises the score.  The default security
  profile triggers the not-verified factor alone (25) and the placeholder metadata the
  Metadata factor alone (10): substituting them holds or raises the score when the
  actual data triggers at most that much, and holds or lowers it when the actual data
  triggers at least that much.
\<close>

theorem default_substitution_effect:
  "bundleScore (b\<lparr>marketData := None\<rparr>) \<le> bundleScore b
   \<and> bundleScore (b\<lparr>holderAnalysis := getDefaultHolderAnalysis\<rparr>) \<le> bundleScore b
   \<and> ((\<Sum>f\<leftarrow>securityRisks (securityAnalysis b). impact f) \<le> 25 \<longrightarrow>
          bundleScore b \<le> bundleScore (b\<lparr>securityAnalysis := getDefaultSecurityAnalysis\<rparr>))
   \<and> (25 \<le> (\<Sum>f\<leftarrow>securityRisks (securityAnalysis b). impact f) \<longrightarrow>
          bundleScore (b\<lparr>securityAnalysis := getDefaultSecurityAnalysis\<rparr>) \<le> bundleScore b)
   \<and> ((\<Sum>f\<leftarrow>metadataRisks (tokenData b) @ supplyRisks (tokenData b). impact f) \<le> 10 \<longrightarrow>
          bundleScore b \<le> bundleScore (b\<lparr>tokenData := getDefaultTokenData addr\<rparr>))
   \<and> (10 \<le> (\<Sum>f\<leftarrow>metadataRisks (tokenData b) @ supplyRisks (tokenData b). impact f) \<longrightarrow>
          bundleScore (b\<lparr>tokenData := getDefaultTokenData addr\<rparr>) \<le> bundleScore b)"
proof -
  have m: "bundleScore (b\<lparr>marketData := None\<rparr>) \<le> bundleScore b"
    using marketRisks_nonneg[of "marketData b"]
    by (simp add: bundleScore_sum marketRisks_def)
  have h: "bundleScore (b\<lparr>holderAnalysis := getDefaultHolderAnalysis\<rparr>) \<le> bundleScore b"
    using holderRisks_nonneg[of "holderAnalysis b"]
    by (simp add: bundleScore_sum default_holder_risks)
  have s: "bundleScore (b\<lparr>securityAnalysis := getDefaultSecurityAnalysis\<rparr>) =
             min 100 (25 + (\<Sum>f\<leftarrow>marketRisks (marketData b). impact f)
              + (\<Sum>f\<leftarrow>holderRisks (holderAnalysis b). impact f)
              + (\<Sum>f\<leftarrow>metadataRisks (tokenData b). impact f)
              + (\<Sum>f\<leftarrow>supplyRisks (tokenData b). impact f))"
    by (simp add: bundleScore_sum default_security_risks)
  have t: "bundleScore (b\<lparr>tokenData := getDefaultTokenData addr\<rparr>) =
             min 100 ((\<Sum>f\<leftarrow>securityRisks (securityAnalysis b). impact f)
              + (\<Sum>f\<leftarrow>marketRisks (marketData b). impact f)
              + (\<Sum>f\<leftarrow>holderRisks (holderAnalysis b). impact f)
              + 10)"
    by (simp add: bundleScore_sum default_metadata_risks default_supply_risks)
  have u: "bundleScore b =
             min 100 ((\<Sum>f\<leftarrow>securityRisks (securityAnalysis b). impact f)
              + (\<Sum>f\<leftarrow>marketRisks (marketData b). impact f)
              + (\<Sum>f\<leftarrow>holderRisks (holderAnalysis b). impact f)
              + (\<Sum>f\<leftarrow>metadataRisks (tokenData b). impact f)
              + (\<Sum>f\<leftarrow>supplyRisks (tokenData b). impact f))"
    by (simp add: bundleScore_sum)
  have c: "(\<Sum>f\<leftarrow>metadataRisks (tokenData b) @ supplyRisks (tokenData b). impact f)
           = (\<Sum>f\<leftarrow>metadataRisks (tokenData b). impact f)
             + (\<Sum>f\<leftarrow>supplyRisks (tokenData b). impact f)"
    by simp
  show ?thesis
    unfolding s t c using m h unfolding u by linarith
qed


lemma richBundle_risks:
  "(\<Sum>f\<leftarrow>securityRisks (securityAnalysis richBundle). impact f) = 40"
  "(\<Sum>f\<leftarrow>marketRisks (marketData richBundle). impact f) = 15"
  "(\<Sum>f\<leftarrow>holderRisks (holderAnalysis richBundle). impact f) = 10"
  "metadataRisks (tokenData richBundle) = []"
  "supplyRisks (tokenData richBundle) = [tokenomicsFactor]"
  by (simp_all add: richBundle_def securityRisks_def marketRisks_def holderRisks_def
      metadataRisks_def supplyRisks_def normalizedSupply_def parseFloat_def isSpace_def
      isDigit_def digitsValue_def digitValue_def pow10_def)

lemma exampleAnalysis_risks:
  "(\<Sum>f\<leftarrow>securityRisks (securityAnalysis exampleAnalysis). impact f) = 25"
  "(\<Sum>f\<leftarrow>metadataRisks (tokenData exampleAnalysis). impact f) = 10"
  "supplyRisks (tokenData exampleAnalysis) = []"
  by (simp_all add: exampleAnalysis_def securityRisks_def metadataRisks_def example_supply)

theorem default_substitution_effect_witness:
  "bundleScore (richBundle\<lparr>marketData := None\<rparr>) \<le> bundleScore richBundle
   \<and> bundleScore (richBundle\<lparr>holderAnalysis := getDefaultHolderAnalysis\<rparr>) \<le> bundleScore richBundle
   \<and> (\<Sum>f\<leftarrow>securityRisks (securityAnalysis exampleAnalysis). impact f) \<le> 25
   \<and> bundleScore exampleAnalysis
         \<le> bundleScore (exampleAnalysis\<lparr>securityAnalysis := getDefaultSecurityAnalysis\<rparr>)
   \<and> 25 \<le> (\<Sum>f\<leftarrow>securityRisks (securityAnalysis richBundle). impact f)
   \<and> bundleScore (richBundle\<lparr>securityAnalysis := getDefaultSecurityAnalysis\<rparr>)
         \<le> bundleScore richBundle
   \<and> (\<Sum>f\<leftarrow>metadataRisks (tokenData exampleAnalysis) @ supplyRisks (tokenData exampleAnalysis).
          impact f) \<le> 10
   \<and> bundleScore exampleAnalysis
         \<le> bundleScore (exampleAnalysis\<lparr>tokenData := getDefaultTokenData exampleAddress\<rparr>)
   \<and> 10 \<le> (\<Sum>f\<leftarrow>metadataRisks (tokenData richBundle) @ supplyRisks (tokenData richBundle).
               impact f)
   \<and> bundleScore (richBundle\<lparr>tokenData := getDefaultTokenData exampleAddress\<rparr>)
         \<le> bundleScore richBundle"
  using default_substitution_effect[of richBundle exampleAddress]
    default_substitution_effect[of exampleAnalysis exampleAddress]
  by (simp add: richBundle_risks exampleAnalysis_risks tokenomicsFactor_def)

text \<open>
  Claim C6 as stated fails for each of the four sources: from the score 80 of
  \<open>richBundle\<close>, substituting the default for the security profile, the holder profile,
  the market snapshot or the metadata lowers the score.
\<close>

theorem default_substitution_counterexample:
  "bundleScore richBundle = 80
   \<and> bundleScore (richBundle\<lparr>securityAnalysis := getDefaultSecurityAnalysis\<rparr>) = 65
   \<and> bundleScore (richBundle\<lparr>holderAnalysis := getDefaultHolderAnalysis\<rparr>) = 70
   \<and> bundleScore (richBundle\<lparr>marketData := None\<rparr>) = 65
   \<and> bundleScore (richBundle\<lparr>tokenData := getDefaultTokenData exampleAddress\<rparr>) = 75"
  by (simp add: bundleScore_sum richBundle_risks default_security_risks default_holder_risks
      default_metadata_risks default_supply_risks marketRisks_None tokenomicsFactor_def)

section \<open>The supply rule\<close>

lemma zeroDecimals_meta: "getTokenMetadata exampleAddress zeroDecimalsReads = zeroDecimalsToken"
  by (simp add: getTokenMetadata_def zeroDecimalsReads_def zeroDecimalsToken_def orString_def
      parseInt_def isSpace_def isDigit_def digitsValue_def digitValue_def)

lemma zeroDecimals_supply: "normalizedSupply zeroDecimalsToken = Some 5000000000000"
  by (simp add: normalizedSupply_def zeroDecimalsToken_def parseFloat_def isSpace_def
      isDigit_def digitsValue_def digitValue_def pow10_def)

lemma zeroDecimals_POST:
  "POST (Body (Some exampleAddress)) (exampleProviders\<lparr>contractReads := zeroDecimalsReads\<rparr>)
     = Json zeroDecimalsAnalysis"
proof -
  have ne: "exampleAddress \<noteq> []" by (simp add: exampleAddress_def)
  have sr: "supplyRisks zeroDecimalsToken = []"
    by (simp add: supplyRisks_def zeroDecimalsToken_def)
  have mr: "metadataRisks zeroDecimalsToken = []"
    by (simp add: metadataRisks_def zeroDecimalsToken_def)
  show ?thesis
    unfolding POST_def Let_def
    by (simp add: ne valid_example not_bluechip_example exampleProviders_def zeroDecimals_meta
        example_security resolved_def getMarketData_def analyzeHolderDistribution_def
        identifyRiskFactorsFiltered_def securityRisks_def marketRisks_def holderRisks_def
        mr sr getDefaultHolderAnalysis_def unverifiedFactor_def
        calculateOverallRiskScore_def determineRiskLevel_def generateRecommendation_def
        zeroDecimalsAnalysis_def)
qed

text \<open>
  Claim C9 at a token with \<open>decimals = 0\<close>.  The normalized supply is five trillion,
  above the threshold, yet the handler's answer has no Tokenomics factor: the test
  \<open>analysis.tokenData.decimals\<close> is falsy for 0 and skips the supply check.
\<close>

theorem tokenomics_factor_missing_at_zero_decimals:
  "POST (Body (Some exampleAddress)) (exampleProviders\<lparr>contractReads := zeroDecimalsReads\<rparr>)
     = Json zeroDecimalsAnalysis
   \<and> tokenData zeroDecimalsAnalysis = zeroDecimalsToken
   \<and> decimals zeroDecimalsToken = Some 0
   \<and> normalizedSupply zeroDecimalsToken = Some 5000000000000
   \<and> (10 :: real) ^ 12 < 5000000000000
   \<and> tokenomicsFactor \<notin> set (riskFactors zeroDecimalsAnalysis)
   \<and> tokenomicsFactor \<notin> set (identifyRiskFactorsFiltered zeroDecimalsAnalysis)"
proof -
  have t: "tokenData zeroDecimalsAnalysis = zeroDecimalsToken"
    by (simp add: zeroDecimalsAnalysis_def)
  have d: "decimals zeroDecimalsToken = Some 0"
    by (simp add: zeroDecimalsToken_def)
  have r: "tokenomicsFactor \<notin> set (riskFactors zeroDecimalsAnalysis)"
    by (simp add: zeroDecimalsAnalysis_def tokenomicsFactor_def unverifiedFactor_def)
  have i: "identifyRiskFactorsFiltered zeroDecimalsAnalysis = [unverifiedFactor]"
    by (simp add: zeroDecimalsAnalysis_def zeroDecimalsToken_def unverifiedFactor_def
        identifyRiskFactorsFiltered_def securityRisks_def marketRisks_def holderRisks_def
        metadataRisks_def supplyRisks_def getDefaultHolderAnalysis_def)
  have f: "tokenomicsFactor \<noteq> unverifiedFactor"
    by (simp add: tokenomicsFactor_def unverifiedFactor_def)
  show ?thesis
    using zeroDecimals_POST zeroDecimals_supply t d r i f by simp
qed

text \<open>For decimals other than 0 the factor is emitted as the table of rules says.\<close>

lemma tokenomics_factor_for_nonzero_decimals:
  assumes "decimals (tokenData a) = Some d" and "d \<noteq> 0"
    and "normalizedSupply (tokenData a) = Some x" and "10 ^ 12 < x"
  shows "tokenomicsFactor \<in> set (identifyRiskFactorsFiltered a)"
proof -
  have "parseFloat (totalSupply (tokenData a)) \<noteq> None"
    using assms(1,3) by (auto simp: normalizedSupply_def)
  then have "totalSupply (tokenData a) \<noteq> []"
    by (auto simp: parseFloat_def)
  then have "supplyRisks (tokenData a) = [tokenomicsFactor]"
    using assms by (simp add: supplyRisks_def)
  then show ?thesis by (simp add: identifyRiskFactorsFiltered_def)
qed

end
